theory Spec2Isabelle
  imports Main
begin

section \<open>Panics and errors\<close>

text \<open>
  A Go \<^verbatim>\<open>panic(msg)\<close> is the left summand of a result, carrying the message; a
  returned \<^verbatim>\<open>error\<close> built with \<^verbatim>\<open>errors.New(msg)\<close> is a value of its own type,
  so that an abort of the process and an ordinary negative result do not mix.
\<close>

datatype panic = Panic string

datatype error = Error string

section \<open>Path resolution\<close>

subsection \<open>The standard library's \<^verbatim>\<open>path.Clean\<close> and \<^verbatim>\<open>path.Join\<close>\<close>

text \<open>
  \<^verbatim>\<open>joinPaths\<close> calls \<^verbatim>\<open>path.Join\<close> of the Go standard library, which is not part
  of the repository. It is modelled after the library's algorithm: \<^verbatim>\<open>Clean\<close> reads the
  path from left to right (the model keeps the unread suffix where the library keeps the
  index \<^verbatim>\<open>r\<close>), writes into a buffer \<^verbatim>\<open>out\<close>, and remembers in \<^verbatim>\<open>dotdot\<close> the
  buffer position that a \<^verbatim>\<open>..\<close> element must not cross.
\<close>

text \<open>
  The backtracking of a \<^verbatim>\<open>..\<close> element, after the first \<^verbatim>\<open>out.w--\<close>:
  \<^verbatim>\<open>for out.w > dotdot && out.index(out.w) != '/' { out.w-- }\<close>.
\<close>

fun backtrack :: "string \<Rightarrow> nat \<Rightarrow> nat \<Rightarrow> nat" where
  "backtrack buf dotdot w =
     (if w > dotdot \<and> buf ! w \<noteq> CHR ''/'' then backtrack buf dotdot (w - 1) else w)"

declare backtrack.simps [simp del]

function cleanLoop :: "bool \<Rightarrow> string \<Rightarrow> string \<Rightarrow> nat \<Rightarrow> string" where
  "cleanLoop rooted [] out dotdot = out"
| "cleanLoop rooted (c # cs) out dotdot =
     (if c = CHR ''/'' then cleanLoop rooted cs out dotdot
      else if c = CHR ''.'' \<and> (cs = [] \<or> hd cs = CHR ''/'') then cleanLoop rooted cs out dotdot
      else if c = CHR ''.'' \<and> hd cs = CHR ''.'' \<and> (tl cs = [] \<or> hd (tl cs) = CHR ''/'') then
        (if length out > dotdot then
           cleanLoop rooted (tl cs) (take (backtrack out dotdot (length out - 1)) out) dotdot
         else if \<not> rooted then
           cleanLoop rooted (tl cs)
             ((if length out > 0 then out @ ''/'' else out) @ ''..'')
             (length ((if length out > 0 then out @ ''/'' else out) @ ''..''))
         else cleanLoop rooted (tl cs) out dotdot)
      else
        cleanLoop rooted (dropWhile (\<lambda>x. x \<noteq> CHR ''/'') cs)
          ((if (rooted \<and> length out \<noteq> 1) \<or> (\<not> rooted \<and> length out \<noteq> 0)
            then out @ ''/'' else out) @ c # takeWhile (\<lambda>x. x \<noteq> CHR ''/'') cs)
          dotdot)"
  by pat_completeness auto
termination
  by (relation "measure (\<lambda>(rooted, p, out, dotdot). length p)")
     (auto simp: length_dropWhile_le le_imp_less_Suc)

declare cleanLoop.simps [simp del]

definition path_Clean :: "string \<Rightarrow> string" where
  "path_Clean p =
     (if p = [] then ''.''
      else
        (let rooted = (hd p = CHR ''/'');
             out = (if rooted then cleanLoop rooted (drop 1 p) ''/'' 1
                    else cleanLoop rooted p [] 0)
         in if length out = 0 then ''.'' else out))"

text \<open>
  The loop of \<^verbatim>\<open>path.Join\<close>: an element is appended when the buffer is not empty
  or the element is not empty, after a separator when the buffer is not empty.
\<close>

fun joinBuf :: "string list \<Rightarrow> string \<Rightarrow> string" where
  "joinBuf [] buf = buf"
| "joinBuf (e # es) buf =
     joinBuf es
       (if length buf > 0 \<or> e \<noteq> [] then (if length buf > 0 then buf @ ''/'' else buf) @ e
        else buf)"

definition path_Join :: "string list \<Rightarrow> string" where
  "path_Join elem =
     (if sum_list (map length elem) = 0 then [] else path_Clean (joinBuf elem []))"

subsection \<open>\<^verbatim>\<open>lastChar\<close> and \<^verbatim>\<open>joinPaths\<close>\<close>

definition lastChar :: "string \<Rightarrow> panic + char" where
  "lastChar str =
     (if str = [] then Inl (Panic ''empty string'') else Inr (str ! (length str - 1)))"

text \<open>
  In \<^verbatim>\<open>lastChar(rel) == '/' && lastChar(final) != '/'\<close> the right operand is evaluated
  only when the left one is true; a panic of either call leaves \<^verbatim>\<open>joinPaths\<close>.
\<close>

definition joinPaths :: "string \<Rightarrow> string \<Rightarrow> panic + string" where
  "joinPaths absolute rel =
     (if rel = [] then Inr absolute
      else
        (let final = path_Join [absolute, rel] in
         case lastChar rel of
           Inl p \<Rightarrow> Inl p
         | Inr c \<Rightarrow>
             (if c = CHR ''/'' then
                (case lastChar final of
                   Inl p \<Rightarrow> Inl p
                 | Inr d \<Rightarrow> if d \<noteq> CHR ''/'' then Inr (final @ ''/'') else Inr final)
              else Inr final)))"

section \<open>Handlers, contexts and operation options\<close>

subsection \<open>The request context\<close>

text \<open>
  A \<^verbatim>\<open>*openapi.Operation\<close> is a pointer: \<open>None\<close> is \<^verbatim>\<open>nil\<close>, \<open>Some op\<close> points to
  the operation object \<open>op\<close>, and two pointers are the same object when they are equal.
  A value kept in the context has type \<^verbatim>\<open>interface{}\<close>: the nil interface, an
  operation pointer, or a value of some other dynamic type.
\<close>

datatype 'op any = AnyNil | AnyOperation "'op option" | AnyOther string

record 'op Context =
  Keys :: "string \<rightharpoonup> 'op any"

definition ctxOpenAPIOperation :: string where
  "ctxOpenAPIOperation = ''_ctx_openapi_operation''"

definition Set :: "'op Context \<Rightarrow> string \<Rightarrow> 'op any \<Rightarrow> 'op Context" where
  "Set c key v = c\<lparr>Keys := (Keys c)(key \<mapsto> v)\<rparr>"

definition Get :: "'op Context \<Rightarrow> string \<Rightarrow> 'op any option" where
  "Get c key = Keys c key"

definition OperationFromContext :: "'op Context \<Rightarrow> error + 'op option" where
  "OperationFromContext c =
     (case Get c ctxOpenAPIOperation of
        Some v \<Rightarrow>
          (case v of
             AnyOperation op \<Rightarrow> Inr op
           | _ \<Rightarrow> Inl (Error ''invalid type: not an operation''))
      | None \<Rightarrow> Inl (Error ''operation not found''))"

subsection \<open>Handlers and their identity\<close>

text \<open>
  A \<^verbatim>\<open>gin.HandlerFunc\<close> is a function value: the entry point of its code
  (\<^verbatim>\<open>runtime.FuncForPC(reflect.ValueOf(h).Pointer()).Entry()\<close>) and what a call does to
  the request context. Closures made from one function literal share the entry point.
\<close>

record 'op handler =
  entry :: nat
  call :: "'op Context \<Rightarrow> 'op Context"

text \<open>The arguments of \<^verbatim>\<open>funcEqual\<close> are \<^verbatim>\<open>interface{}\<close> values, functions or not.\<close>

datatype 'op iface = FuncOf "'op handler" | NotFunc

definition funcEqual :: "'op iface \<Rightarrow> 'op iface \<Rightarrow> bool" where
  "funcEqual f1 f2 =
     (case (f1, f2) of
        (FuncOf v1, FuncOf v2) \<Rightarrow> entry v1 = entry v2
      | _ \<Rightarrow> False)"

subsection \<open>Operation options\<close>

type_synonym rtype = string

record OperationResponse =
  Code :: string
  ResponseDescription :: string
  Model :: "rtype option"
  ResponseHeaders :: "(string \<times> string \<times> rtype option) list"
  Example :: "string option"
  Examples :: "(string \<times> string) list"

text \<open>
  The fields of \<^verbatim>\<open>openapi.OperationInfo\<close> that this file reads or writes. A model
  (\<^verbatim>\<open>interface{}\<close>) is represented by its dynamic type, which is all that
  \<^verbatim>\<open>reflect.TypeOf\<close> reads; \<open>None\<close> is the nil interface.
\<close>

record OperationInfo =
  ID :: string
  StatusCode :: int
  StatusDescription :: string
  Summary :: string
  Description :: string
  InputModel :: "rtype option"
  Responses :: "OperationResponse list"
  Headers :: "(string \<times> string \<times> rtype option) list"
  XCodeSamples :: "string list"

type_synonym OperationOption = "OperationInfo \<Rightarrow> OperationInfo"

definition emptyOperationInfo :: OperationInfo where
  "emptyOperationInfo =
     \<lparr>ID = [], StatusCode = 0, StatusDescription = [], Summary = [], Description = [],
      InputModel = None, Responses = [], Headers = [], XCodeSamples = []\<rparr>"

definition StatusDescription_opt :: "string \<Rightarrow> OperationOption" where
  "StatusDescription_opt desc = (\<lambda>oi. oi\<lparr>StatusDescription := desc\<rparr>)"

text \<open>
  \<^verbatim>\<open>fmt.Sprintf\<close> belongs to the standard library; \<^verbatim>\<open>Summaryf\<close> and
  \<^verbatim>\<open>Descriptionf\<close> take it as their first argument.
\<close>

definition Summaryf :: "(string \<Rightarrow> 'a list \<Rightarrow> string) \<Rightarrow> string \<Rightarrow> 'a list \<Rightarrow> OperationOption" where
  "Summaryf Sprintf format a = (\<lambda>oi. oi\<lparr>Summary := Sprintf format a\<rparr>)"

definition Descriptionf :: "(string \<Rightarrow> 'a list \<Rightarrow> string) \<Rightarrow> string \<Rightarrow> 'a list \<Rightarrow> OperationOption" where
  "Descriptionf Sprintf format a = (\<lambda>oi. oi\<lparr>Description := Sprintf format a\<rparr>)"

definition ID_opt :: "string \<Rightarrow> OperationOption" where
  "ID_opt ident = (\<lambda>oi. oi\<lparr>ID := ident\<rparr>)"

definition Response :: "string \<Rightarrow> string \<Rightarrow> rtype option \<Rightarrow> (string \<times> string \<times> rtype option) list
    \<Rightarrow> string option \<Rightarrow> OperationOption" where
  "Response statusCode desc model headers example =
     (\<lambda>oi. oi\<lparr>Responses := Responses oi @
        [\<lparr>Code = statusCode, ResponseDescription = desc, Model = model, ResponseHeaders = headers,
          Example = example, Examples = []\<rparr>]\<rparr>)"

definition ResponseWithExamples :: "string \<Rightarrow> string \<Rightarrow> rtype option
    \<Rightarrow> (string \<times> string \<times> rtype option) list \<Rightarrow> (string \<times> string) list \<Rightarrow> OperationOption" where
  "ResponseWithExamples statusCode desc model headers examples =
     (\<lambda>oi. oi\<lparr>Responses := Responses oi @
        [\<lparr>Code = statusCode, ResponseDescription = desc, Model = model, ResponseHeaders = headers,
          Example = None, Examples = examples\<rparr>]\<rparr>)"

definition Header :: "string \<Rightarrow> string \<Rightarrow> rtype option \<Rightarrow> OperationOption" where
  "Header name desc model = (\<lambda>oi. oi\<lparr>Headers := Headers oi @ [(name, desc, model)]\<rparr>)"

definition InputModel_opt :: "rtype option \<Rightarrow> OperationOption" where
  "InputModel_opt model = (\<lambda>oi. oi\<lparr>InputModel := model\<rparr>)"

definition XCodeSample :: "string \<Rightarrow> OperationOption" where
  "XCodeSample cs = (\<lambda>oi. oi\<lparr>XCodeSamples := XCodeSamples oi @ [cs]\<rparr>)"

text \<open>The first loop of \<^verbatim>\<open>Handle\<close>: \<^verbatim>\<open>for _, info := range infos { info(oi) }\<close>.\<close>

fun applyOptions :: "OperationOption list \<Rightarrow> OperationInfo \<Rightarrow> OperationInfo" where
  "applyOptions [] oi = oi"
| "applyOptions (info # infos) oi = applyOptions infos (info oi)"

section \<open>The collaborators outside the repository\<close>

text \<open>
  What \<^verbatim>\<open>tonic.GetRouteByHandler\<close> reports of a recognised handler, read through the
  methods \<^verbatim>\<open>HandlerName\<close>, \<^verbatim>\<open>GetDefaultStatusCode\<close>, \<^verbatim>\<open>InputType\<close> and
  \<^verbatim>\<open>OutputType\<close>.
\<close>

record Route =
  HandlerName :: string
  GetDefaultStatusCode :: int
  InputType :: rtype
  OutputType :: rtype

text \<open>The arguments of one call of the generator's \<^verbatim>\<open>AddOperation\<close>.\<close>

record AddOperationCall =
  opPath :: string
  opMethod :: string
  opTag :: string
  opIn :: rtype
  opOut :: rtype
  opInfo :: OperationInfo

text \<open>
  The typed-binding library, the generator and the router are not part of the repository.
  What they answer is a parameter of the model: whether a handler is recognised, what
  \<^verbatim>\<open>AddOperation\<close> returns (an error, or an operation pointer that may be nil) given
  the calls made before and the call made now, the base path of a router node and the node
  that the router derives for a sub-group. \<open>closureEntry\<close> is the entry point of the
  function literal with which \<^verbatim>\<open>Handle\<close> replaces the matched handler.
\<close>

record ('op, 'r) env =
  GetRouteByHandler :: "'op handler \<Rightarrow> error + Route"
  AddOperation :: "AddOperationCall list \<Rightarrow> AddOperationCall \<Rightarrow> error + 'op option"
  BasePath :: "'r \<Rightarrow> string"
  ginGroup :: "'r \<Rightarrow> string \<Rightarrow> 'op handler list \<Rightarrow> 'r"
  closureEntry :: nat

record Info =
  Title :: string
  Version :: string

text \<open>
  The state shared by all groups is the record of what has been handed to the
  collaborators: the calls of \<^verbatim>\<open>AddOperation\<close> that returned without error, the calls
  of the router's \<^verbatim>\<open>Handle\<close> (router node, method, path, handler chain), and the
  document information last set. The router's own checks of a route are outside the model.
\<close>

record ('op, 'r) world =
  operations :: "AddOperationCall list"
  routes :: "('r \<times> string \<times> string \<times> 'op handler list) list"
  apiInfo :: "Info option"

section \<open>Route groups\<close>

type_synonym Tag = string

text \<open>
  The fields of \<^verbatim>\<open>RouterGroup\<close> that the modelled functions use. The generator that
  \<^verbatim>\<open>Handle\<close> reaches through \<^verbatim>\<open>g.gen\<close> is shared by all groups and is part of the
  \<open>world\<close>.
\<close>

record 'r RouterGroup =
  group :: 'r
  tags :: "Tag list"
  Name :: string
  GroupDescription :: string

text \<open>
  \<^verbatim>\<open>Group\<close> has a pointer receiver, and \<^verbatim>\<open>g.tags = append(...)\<close> assigns to the
  receiver's field: the result is the receiver after the call together with the new group.
  A slice is read within its length as a list; \<open>None\<close> is the nil tag.
\<close>

definition Group :: "('op, 'r) env \<Rightarrow> 'r RouterGroup \<Rightarrow> string \<Rightarrow> Tag option \<Rightarrow> 'op handler list
    \<Rightarrow> 'r RouterGroup \<times> 'r RouterGroup" where
  "Group env g path tag handlers =
     (let g1 = (case tag of
                  None \<Rightarrow> g
                | Some t \<Rightarrow>
                    (let g0 = (if length (tags g) = 0 then g\<lparr>tags := []\<rparr> else g)
                     in g0\<lparr>tags := tags g0 @ [t]\<rparr>))
      in (g1, \<lparr>group = ginGroup env (group g1) path handlers, tags = tags g1,
               Name = [], GroupDescription = []\<rparr>))"

section \<open>Registering a route\<close>

record 'op wrap =
  wrap_h :: "'op handler"
  wrap_r :: Route

text \<open>The loop that finds the handlers wrapped with Tonic, in the order of the chain.\<close>

fun findWrapped :: "('op, 'r) env \<Rightarrow> 'op handler list \<Rightarrow> 'op wrap list" where
  "findWrapped env [] = []"
| "findWrapped env (h # hs) =
     (case GetRouteByHandler env h of
        Inr r \<Rightarrow> \<lparr>wrap_h = h, wrap_r = r\<rparr> # findWrapped env hs
      | Inl err \<Rightarrow> findWrapped env hs)"

text \<open>
  The function literal that takes the place of the matched handler:
  \<^verbatim>\<open>func(c *gin.Context) { c.Set(ctxOpenAPIOperation, operation); orig(c) }\<close>.
\<close>

definition injectOperation :: "('op, 'r) env \<Rightarrow> 'op option \<Rightarrow> 'op handler \<Rightarrow> 'op handler" where
  "injectOperation env operation orig =
     \<lparr>entry = closureEntry env,
      call = (\<lambda>c. call orig (Set c ctxOpenAPIOperation (AnyOperation operation)))\<rparr>"

text \<open>
  The loop \<^verbatim>\<open>for i, h := range handlers\<close> that assigns \<^verbatim>\<open>handlers[i]\<close>: every
  element is read before its own slot is written, and compared with the handler kept in
  \<^verbatim>\<open>wrapped[0]\<close>.
\<close>

fun wrapHandlers :: "('op, 'r) env \<Rightarrow> 'op option \<Rightarrow> 'op handler \<Rightarrow> 'op handler list
    \<Rightarrow> 'op handler list" where
  "wrapHandlers env operation h0 [] = []"
| "wrapHandlers env operation h0 (h # hs) =
     (if funcEqual (FuncOf h) (FuncOf h0) then injectOperation env operation h else h)
       # wrapHandlers env operation h0 hs"

text \<open>
  \<^verbatim>\<open>fmt.Sprintf\<close> with the verb \<^verbatim>\<open>%s\<close> and string arguments (or an error, printed by
  its message) is concatenation.
\<close>

definition multipleMessage :: "string \<Rightarrow> string \<Rightarrow> string" where
  "multipleMessage method path =
     ''multiple tonic-wrapped handler used for operation '' @ method @ '' '' @ path"

definition generationMessage :: "string \<Rightarrow> string \<Rightarrow> error \<Rightarrow> string" where
  "generationMessage method path err =
     ''error while generating OpenAPI spec on operation '' @ method @ '' '' @ path @ '': ''
       @ (case err of Error msg \<Rightarrow> msg)"

text \<open>
  \<^verbatim>\<open>Handle\<close> returns its receiver; the model returns with it the shared state and the
  handler slice, whose elements the function assigns in place.
\<close>

definition Handle :: "('op, 'r) env \<Rightarrow> ('op, 'r) world \<Rightarrow> 'r RouterGroup \<Rightarrow> string \<Rightarrow> string
    \<Rightarrow> OperationOption list \<Rightarrow> 'op handler list
    \<Rightarrow> panic + ('r RouterGroup \<times> ('op, 'r) world \<times> 'op handler list)" where
  "Handle env w g path method infos handlers =
     (let oi = applyOptions infos emptyOperationInfo;
          wrapped = findWrapped env handlers
      in if length wrapped > 1 then Inl (Panic (multipleMessage method path))
         else if length wrapped = 1 then
           (let hfunc = wrap_r (wrapped ! 0);
                oi1 = (if ID oi = [] then oi\<lparr>ID := HandlerName hfunc\<rparr> else oi);
                oi2 = oi1\<lparr>StatusCode := GetDefaultStatusCode hfunc\<rparr>;
                it = (case InputModel oi2 of None \<Rightarrow> InputType hfunc | Some model \<Rightarrow> model)
            in case joinPaths (BasePath env (group g)) path of
                 Inl p \<Rightarrow> Inl p
               | Inr operationPath \<Rightarrow>
                   (let c = \<lparr>opPath = operationPath, opMethod = method, opTag = Name g,
                             opIn = it, opOut = OutputType hfunc, opInfo = oi2\<rparr>
                    in case AddOperation env (operations w) c of
                         Inl err \<Rightarrow> Inl (Panic (generationMessage method path err))
                       | Inr operation \<Rightarrow>
                           (let handlers1 =
                                  (case operation of
                                     None \<Rightarrow> handlers
                                   | Some op \<Rightarrow>
                                       wrapHandlers env operation (wrap_h (wrapped ! 0)) handlers)
                            in Inr (g,
                                    w\<lparr>operations := operations w @ [c],
                                      routes := routes w @ [(group g, method, path, handlers1)]\<rparr>,
                                    handlers1))))
         else Inr (g, w\<lparr>routes := routes w @ [(group g, method, path, handlers)]\<rparr>, handlers))"

section \<open>Serving the document\<close>

text \<open>
  \<^verbatim>\<open>strings.ToLower\<close> on the bytes of an ASCII string; a byte outside \<^verbatim>\<open>A\<close>..\<^verbatim>\<open>Z\<close>
  is kept. (On other strings the library maps whole code points; none of them is mapped to
  a letter of \<^verbatim>\<open>json\<close> or \<^verbatim>\<open>yaml\<close>.)
\<close>

definition toLowerByte :: "char \<Rightarrow> char" where
  "toLowerByte c =
     (if 65 \<le> (of_char c :: nat) \<and> (of_char c :: nat) \<le> 90
      then char_of ((of_char c :: nat) + 32) else c)"

definition ToLower :: "string \<Rightarrow> string" where
  "ToLower s = map toLowerByte s"

text \<open>
  The handler that \<^verbatim>\<open>OpenAPI\<close> returns makes one render call with the document as it
  is when the request arrives: \<^verbatim>\<open>c.JSON(200, api)\<close> or \<^verbatim>\<open>c.YAML(200, api)\<close>.
\<close>

datatype 'api render = JSON int 'api | YAML int 'api

definition OpenAPI :: "('op, 'r) world \<Rightarrow> Info option \<Rightarrow> string
    \<Rightarrow> panic + (('op, 'r) world \<times> ('api \<Rightarrow> 'api render))" where
  "OpenAPI w info ct =
     (let w1 = w\<lparr>apiInfo := info\<rparr>;
          ct1 = ToLower ct;
          ct2 = (if ct1 = [] then ''json'' else ct1)
      in if ct2 = ''json'' then Inr (w1, (\<lambda>api. JSON 200 api))
         else if ct2 = ''yaml'' then Inr (w1, (\<lambda>api. YAML 200 api))
         else Inl (Panic ''invalid content type, use JSON or YAML''))"

section \<open>Notions of the specification\<close>

text \<open>
  The resolved path as the specification words it: the join of base path and segment,
  with the separator restored when the segment ends in one and the join does not.
\<close>

definition endsWithSeparator :: "string \<Rightarrow> bool" where
  "endsWithSeparator s = (s \<noteq> [] \<and> last s = CHR ''/'')"

definition resolvedPathSpec :: "string \<Rightarrow> string \<Rightarrow> string" where
  "resolvedPathSpec absolute rel =
     (let naive = path_Join [absolute, rel]
      in if endsWithSeparator rel \<and> \<not> endsWithSeparator naive then naive @ ''/'' else naive)"

text \<open>The handlers of a chain that the typed-binding library recognises.\<close>

definition recognised :: "('op, 'r) env \<Rightarrow> 'op handler \<Rightarrow> bool" where
  "recognised env h = (case GetRouteByHandler env h of Inr r \<Rightarrow> True | Inl err \<Rightarrow> False)"

definition typedHandlers :: "('op, 'r) env \<Rightarrow> 'op handler list \<Rightarrow> 'op handler list" where
  "typedHandlers env handlers = filter (recognised env) handlers"

text \<open>An option that leaves a field of the operation under construction as it is.\<close>

definition keeps :: "(OperationInfo \<Rightarrow> 'a) \<Rightarrow> OperationOption \<Rightarrow> bool" where
  "keeps field info = (\<forall>oi. field (info oi) = field oi)"

text \<open>An option that sets a field to a value, whatever the field held before.\<close>

definition sets :: "(OperationInfo \<Rightarrow> 'a) \<Rightarrow> 'a \<Rightarrow> OperationOption \<Rightarrow> bool" where
  "sets field v info = (\<forall>oi. field (info oi) = v)"

text \<open>
  Two strings that are equal up to the case of their ASCII letters: byte by byte they are
  the same, or one is an upper-case letter and the other the lower-case letter 32 above.
\<close>

definition isUpper :: "char \<Rightarrow> bool" where
  "isUpper c = (65 \<le> (of_char c :: nat) \<and> (of_char c :: nat) \<le> 90)"

definition sameLetter :: "char \<Rightarrow> char \<Rightarrow> bool" where
  "sameLetter c d =
     (c = d \<or> (isUpper c \<and> (of_char d :: nat) = of_char c + 32)
            \<or> (isUpper d \<and> (of_char c :: nat) = of_char d + 32))"

definition equalFold :: "string \<Rightarrow> string \<Rightarrow> bool" where
  "equalFold s t = list_all2 sameLetter s t"

section \<open>A small installation\<close>

text \<open>
  Concrete collaborators on which the theorems are run. Handlers with entry point 1 are
  the ones the binding library recognises; the generator refuses an identifier that an
  earlier operation uses and otherwise returns a new operation object, numbered by the
  count of operations before it; a router node is its base path.
\<close>

definition getItemRoute :: Route where
  "getItemRoute =
     \<lparr>HandlerName = ''getItem'', GetDefaultStatusCode = 200,
      InputType = ''ItemQuery'', OutputType = ''Item''\<rparr>"

definition exampleEnv :: "(nat, string) env" where
  "exampleEnv =
     \<lparr>GetRouteByHandler =
        (\<lambda>h. if entry h = 1 then Inr getItemRoute
              else Inl (Error ''handler is not wrapped by tonic'')),
      AddOperation =
        (\<lambda>hist c. if ID (opInfo c) \<in> set (map (\<lambda>d. ID (opInfo d)) hist)
                   then Inl (Error (''ID '' @ ID (opInfo c) @ '' is already used by another operation''))
                   else Inr (Some (length hist))),
      BasePath = (\<lambda>node. node),
      ginGroup = (\<lambda>node path handlers. case joinPaths node path of Inr p \<Rightarrow> p | Inl e \<Rightarrow> node),
      closureEntry = 2\<rparr>"

definition getItem :: "nat handler" where
  "getItem = \<lparr>entry = 1, call = (\<lambda>c. c)\<rparr>"

definition logger :: "nat handler" where
  "logger = \<lparr>entry = 7, call = (\<lambda>c. c)\<rparr>"

definition emptyContext :: "nat Context" where
  "emptyContext = \<lparr>Keys = Map.empty\<rparr>"

definition emptyWorld :: "(nat, string) world" where
  "emptyWorld = \<lparr>operations = [], routes = [], apiInfo = Some \<lparr>Title = ''API'', Version = ''1.0''\<rparr>\<rparr>"

definition rootGroup :: "string RouterGroup" where
  "rootGroup = \<lparr>group = ''/'', tags = [], Name = [], GroupDescription = []\<rparr>"

text \<open>
  The state after \<^verbatim>\<open>GET /items/:id\<close> has been registered on the root group with the
  chain \<open>[logger, getItem]\<close> and no option.
\<close>

definition getItemCall :: AddOperationCall where
  "getItemCall =
     \<lparr>opPath = ''/items/:id'', opMethod = ''GET'', opTag = [], opIn = ''ItemQuery'',
      opOut = ''Item'', opInfo = emptyOperationInfo\<lparr>ID := ''getItem'', StatusCode := 200\<rparr>\<rparr>"

definition itemsHandlers :: "nat handler list" where
  "itemsHandlers = [logger, injectOperation exampleEnv (Some 0) getItem]"

definition itemsWorld :: "(nat, string) world" where
  "itemsWorld =
     \<lparr>operations = [getItemCall],
      routes = [(''/'', ''GET'', ''/items/:id'', itemsHandlers)],
      apiInfo = Some \<lparr>Title = ''API'', Version = ''1.0''\<rparr>\<rparr>"

text \<open>The same registration when options have shaped the operation information.\<close>

definition itemsWorldWith :: "OperationInfo \<Rightarrow> (nat, string) world" where
  "itemsWorldWith oi = itemsWorld\<lparr>operations := [getItemCall\<lparr>opInfo := oi\<rparr>]\<rparr>"


section \<open>Path resolution: results\<close>

lemma path_Clean_not_empty: "path_Clean p \<noteq> []"
  by (simp add: path_Clean_def Let_def)

lemma path_Join_not_empty: "rel \<noteq> [] \<Longrightarrow> path_Join [absolute, rel] \<noteq> []"
  by (simp add: path_Join_def path_Clean_not_empty)

lemma lastChar_last: "s \<noteq> [] \<Longrightarrow> lastChar s = Inr (last s)"
  by (simp add: lastChar_def last_conv_nth)

lemma joinPaths_empty: "joinPaths absolute [] = Inr absolute"
  by (simp add: joinPaths_def)

lemma joinPaths_resolved: "rel \<noteq> [] \<Longrightarrow> joinPaths absolute rel = Inr (resolvedPathSpec absolute rel)"
  by (simp add: joinPaths_def resolvedPathSpec_def endsWithSeparator_def Let_def
      lastChar_last path_Join_not_empty)

lemma joinPaths_total: "\<exists>p. joinPaths absolute rel = Inr p"
  by (cases "rel = []") (simp_all add: joinPaths_empty joinPaths_resolved)

lemma joinPaths_abc: "joinPaths ''/a/b'' ''/c'' = Inr ''/a/b/c''" by code_simp

lemma joinPaths_abc_slash: "joinPaths ''/a/b'' ''/c/'' = Inr ''/a/b/c/''" by code_simp

text \<open>
  \<^bold>\<open>C10.\<close> For every base path, \<^verbatim>\<open>joinPaths\<close> with the empty segment returns the base
  path as it is, on the branch that calls neither \<^verbatim>\<open>path.Join\<close> nor \<^verbatim>\<open>lastChar\<close>.
  For a segment that is not empty, the join is not empty, so both calls of \<^verbatim>\<open>lastChar\<close>
  return a character and none reaches the panic on the empty string. Hence
  \<^verbatim>\<open>joinPaths\<close> returns a path on every input.
\<close>

theorem joinPaths_never_panics:
  "joinPaths absolute [] = Inr absolute \<and>
   (rel \<noteq> [] \<longrightarrow>
      path_Join [absolute, rel] \<noteq> [] \<and>
      lastChar rel = Inr (last rel) \<and>
      lastChar (path_Join [absolute, rel]) = Inr (last (path_Join [absolute, rel]))) \<and>
   (\<exists>p. joinPaths absolute rel = Inr p)"
  by (simp add: joinPaths_empty joinPaths_total lastChar_last path_Join_not_empty)

theorem joinPaths_never_panics_witness:
  "joinPaths ''/a'' [] = Inr ''/a'' \<and> ''/c/'' \<noteq> [] \<and>
   path_Join [''/a'', ''/c/''] \<noteq> [] \<and>
   lastChar ''/c/'' = Inr (CHR ''/'') \<and>
   lastChar (path_Join [''/a'', ''/c/'']) = Inr (last (path_Join [''/a'', ''/c/''])) \<and>
   (\<exists>p. joinPaths ''/a'' ''/c/'' = Inr p)"
  using joinPaths_never_panics [of "''/a''" "''/c/''"] by simp

text \<open>
  \<^bold>\<open>C3.\<close> As amended: for a segment that is not empty, the resolved path is the join of base path
  and segment, with the separator restored when the segment ends in one and the join does
  not; for the empty segment, the resolved path is the base path as it is, which need not
  be the join. A segment ending in the separator resolves to a path ending in the
  separator; base \<^verbatim>\<open>/a/b\<close> with segment \<^verbatim>\<open>/c\<close> resolves to \<^verbatim>\<open>/a/b/c\<close>, and
  with segment \<^verbatim>\<open>/c/\<close> to \<^verbatim>\<open>/a/b/c/\<close>.
\<close>

theorem joinPaths_resolution:
  "(rel = [] \<longrightarrow> joinPaths absolute rel = Inr absolute) \<and>
   (rel \<noteq> [] \<longrightarrow> joinPaths absolute rel = Inr (resolvedPathSpec absolute rel)) \<and>
   (endsWithSeparator rel \<longrightarrow> (\<exists>p. joinPaths absolute rel = Inr p \<and> endsWithSeparator p)) \<and>
   joinPaths ''/a/b'' ''/c'' = Inr ''/a/b/c'' \<and>
   joinPaths ''/a/b'' ''/c/'' = Inr ''/a/b/c/''"
proof -
  have "endsWithSeparator (resolvedPathSpec absolute rel)" if "endsWithSeparator rel"
    using that by (simp add: resolvedPathSpec_def Let_def endsWithSeparator_def)
  then show ?thesis
    using joinPaths_abc joinPaths_abc_slash
    by (auto simp: joinPaths_empty joinPaths_resolved endsWithSeparator_def)
qed

theorem joinPaths_resolution_witness:
  "''/c/'' \<noteq> [] \<and> endsWithSeparator ''/c/'' \<and>
   joinPaths ''/a/b'' ''/c/'' = Inr (resolvedPathSpec ''/a/b'' ''/c/'') \<and>
   joinPaths ''/a/b'' [] = Inr ''/a/b'' \<and>
   (\<exists>p. joinPaths ''/a/b'' ''/c/'' = Inr p \<and> endsWithSeparator p)"
proof -
  have r: "''/c/'' \<noteq> []" by simp
  have e: "endsWithSeparator ''/c/''" by (simp add: endsWithSeparator_def)
  show ?thesis
    using r e joinPaths_resolution [of "''/c/''" "''/a/b''"]
      joinPaths_resolution [of "[]" "''/a/b''"]
    by blast
qed

text \<open>
  The claim as stated fails on the empty segment: under the base path \<^verbatim>\<open>/a/\<close> the
  code resolves it to \<^verbatim>\<open>/a/\<close>, the join of the two is \<^verbatim>\<open>/a\<close>.
\<close>

theorem joinPaths_empty_segment_counterexample:
  "joinPaths ''/a/'' [] = Inr ''/a/'' \<and> resolvedPathSpec ''/a/'' [] = ''/a'' \<and>
   joinPaths ''/a/'' [] \<noteq> Inr (resolvedPathSpec ''/a/'' [])"
  by code_simp

section \<open>Operation options: results\<close>


lemma applyOptions_append:
  "applyOptions (before @ after) oi = applyOptions after (applyOptions before oi)"
  by (induction before arbitrary: oi) simp_all

lemma applyOptions_keeps:
  "\<forall>info\<in>set infos. keeps field info \<Longrightarrow> field (applyOptions infos oi) = field oi"
  by (induction infos arbitrary: oi) (simp_all add: keeps_def)

lemma applyOptions_sets:
  assumes "sets field v info" and "\<forall>later\<in>set after. keeps field later"
  shows "field (applyOptions (before @ info # after) oi) = v"
proof -
  have "field (applyOptions (before @ info # after) oi) = field (info (applyOptions before oi))"
    using assms(2) by (simp add: applyOptions_append applyOptions_keeps)
  then show ?thesis using assms(1) by (simp add: sets_def)
qed

lemma setters:
  "sets Summary (Sprintf format a) (Summaryf Sprintf format a)"
  "sets Description (Sprintf format a) (Descriptionf Sprintf format a)"
  "sets ID ident (ID_opt ident)"
  "sets StatusDescription desc (StatusDescription_opt desc)"
  "sets InputModel model (InputModel_opt model)"
  by (simp_all add: sets_def Summaryf_def Descriptionf_def ID_opt_def StatusDescription_opt_def
      InputModel_opt_def)

lemma keeps_ID:
  "keeps ID (Summaryf Sprintf format a)"
  "keeps ID (Descriptionf Sprintf format a)"
  "keeps ID (StatusDescription_opt desc)"
  "keeps ID (InputModel_opt model)"
  "keeps ID (Response statusCode desc model headers example)"
  "keeps ID (ResponseWithExamples statusCode desc model headers examples)"
  "keeps ID (Header name desc model)"
  "keeps ID (XCodeSample cs)"
  by (simp_all add: keeps_def Summaryf_def Descriptionf_def StatusDescription_opt_def
      InputModel_opt_def Response_def ResponseWithExamples_def Header_def XCodeSample_def)








section \<open>Registering a route: results\<close>

subsection \<open>The loops\<close>

lemma findWrapped_handlers: "map wrap_h (findWrapped env handlers) = typedHandlers env handlers"
  by (induction handlers) (auto simp: typedHandlers_def recognised_def split: sum.splits)

lemma findWrapped_length: "length (findWrapped env handlers) = length (typedHandlers env handlers)"
  using findWrapped_handlers [of env handlers] by (metis length_map)

lemma findWrapped_route:
  "m \<in> set (findWrapped env handlers) \<Longrightarrow> GetRouteByHandler env (wrap_h m) = Inr (wrap_r m)"
  by (induction handlers) (auto split: sum.splits)

lemma findWrapped_single:
  assumes "typedHandlers env handlers = [h]"
  shows "\<exists>r. findWrapped env handlers = [\<lparr>wrap_h = h, wrap_r = r\<rparr>] \<and> GetRouteByHandler env h = Inr r"
proof -
  from assms findWrapped_handlers [of env handlers]
  obtain m where m: "findWrapped env handlers = [m]" "wrap_h m = h"
    by (auto simp: map_eq_Cons_conv)
  then have "GetRouteByHandler env h = Inr (wrap_r m)"
    using findWrapped_route [of m env handlers] by simp
  moreover have "m = \<lparr>wrap_h = h, wrap_r = wrap_r m\<rparr>" using m by simp
  ultimately show ?thesis using m by metis
qed

lemma wrapHandlers_map:
  "wrapHandlers env operation h0 handlers =
     map (\<lambda>h. if entry h = entry h0 then injectOperation env operation h else h) handlers"
  by (induction handlers) (simp_all add: funcEqual_def)

lemma typedHandlers_index:
  "typedHandlers env handlers = [h] \<Longrightarrow> \<exists>i<length handlers. handlers ! i = h"
proof -
  assume "typedHandlers env handlers = [h]"
  then have "h \<in> set (filter (recognised env) handlers)" by (simp add: typedHandlers_def)
  then have "h \<in> set handlers" by simp
  then show ?thesis by (simp add: in_set_conv_nth)
qed

subsection \<open>The three cases\<close>

lemma Handle_none:
  "typedHandlers env handlers = [] \<Longrightarrow>
   Handle env w g path method infos handlers =
     Inr (g, w\<lparr>routes := routes w @ [(group g, method, path, handlers)]\<rparr>, handlers)"
  using findWrapped_length [of env handlers] by (simp add: Handle_def)


lemma Handle_one:
  assumes "typedHandlers env handlers = [h]"
  shows "\<exists>r c. GetRouteByHandler env h = Inr r \<and>
     opMethod c = method \<and> joinPaths (BasePath env (group g)) path = Inr (opPath c) \<and>
     opTag c = Name g \<and> opOut c = OutputType r \<and>
     opIn c = (case InputModel (applyOptions infos emptyOperationInfo) of
                 None \<Rightarrow> InputType r | Some model \<Rightarrow> model) \<and>
     opInfo c = (applyOptions infos emptyOperationInfo)
               \<lparr>ID := (if ID (applyOptions infos emptyOperationInfo) = [] then HandlerName r
                       else ID (applyOptions infos emptyOperationInfo)),
                StatusCode := GetDefaultStatusCode r\<rparr> \<and>
     Handle env w g path method infos handlers =
       (case AddOperation env (operations w) c of
          Inl err \<Rightarrow> Inl (Panic (generationMessage method path err))
        | Inr operation \<Rightarrow>
            Inr (g,
                 w\<lparr>operations := operations w @ [c],
                   routes := routes w @ [(group g, method, path,
                     (case operation of None \<Rightarrow> handlers
                      | Some op \<Rightarrow> wrapHandlers env operation h handlers))]\<rparr>,
                 (case operation of None \<Rightarrow> handlers
                  | Some op \<Rightarrow> wrapHandlers env operation h handlers)))"
proof -
  from findWrapped_single [OF assms]
  obtain r where r: "findWrapped env handlers = [\<lparr>wrap_h = h, wrap_r = r\<rparr>]"
    "GetRouteByHandler env h = Inr r" by blast
  obtain p where p: "joinPaths (BasePath env (group g)) path = Inr p"
    using joinPaths_total by blast
  show ?thesis
    apply (rule exI [of _ r])
    apply (rule exI [of _ "\<lparr>opPath = p, opMethod = method, opTag = Name g,
             opIn = (case InputModel (applyOptions infos emptyOperationInfo) of None \<Rightarrow> InputType r | Some model \<Rightarrow> model),
             opOut = OutputType r,
             opInfo = (applyOptions infos emptyOperationInfo)
               \<lparr>ID := (if ID (applyOptions infos emptyOperationInfo) = [] then HandlerName r
                       else ID (applyOptions infos emptyOperationInfo)),
                StatusCode := GetDefaultStatusCode r\<rparr>\<rparr>"])
    using r p
    by (simp add: Handle_def Let_def split: sum.splits option.splits)
qed

lemma Handle_one_result:
  assumes typed: "typedHandlers env handlers = [h]"
      and ok: "Handle env w g path method infos handlers = Inr (g', w', handlers')"
  shows "\<exists>r c operation.
           GetRouteByHandler env h = Inr r \<and>
           AddOperation env (operations w) c = Inr operation \<and>
           opMethod c = method \<and> joinPaths (BasePath env (group g)) path = Inr (opPath c) \<and>
           opTag c = Name g \<and> opOut c = OutputType r \<and>
           opIn c = (case InputModel (applyOptions infos emptyOperationInfo) of
                       None \<Rightarrow> InputType r | Some model \<Rightarrow> model) \<and>
           opInfo c = (applyOptions infos emptyOperationInfo)
               \<lparr>ID := (if ID (applyOptions infos emptyOperationInfo) = [] then HandlerName r
                       else ID (applyOptions infos emptyOperationInfo)),
                StatusCode := GetDefaultStatusCode r\<rparr> \<and>
           g' = g \<and>
           operations w' = operations w @ [c] \<and>
           routes w' = routes w @ [(group g, method, path, handlers')] \<and>
           apiInfo w' = apiInfo w \<and>
           handlers' = (case operation of None \<Rightarrow> handlers
                        | Some op \<Rightarrow> wrapHandlers env operation h handlers)"
proof -
  from Handle_one [OF typed, of "method" g path infos w]
  obtain r c where rc: "GetRouteByHandler env h = Inr r"
    "opMethod c = method" "joinPaths (BasePath env (group g)) path = Inr (opPath c)"
    "opTag c = Name g" "opOut c = OutputType r"
    "opIn c = (case InputModel (applyOptions infos emptyOperationInfo) of
                       None \<Rightarrow> InputType r | Some model \<Rightarrow> model)"
    "opInfo c = (applyOptions infos emptyOperationInfo)
               \<lparr>ID := (if ID (applyOptions infos emptyOperationInfo) = [] then HandlerName r
                       else ID (applyOptions infos emptyOperationInfo)),
                StatusCode := GetDefaultStatusCode r\<rparr>"
    and H: "Handle env w g path method infos handlers =
       (case AddOperation env (operations w) c of
          Inl err \<Rightarrow> Inl (Panic (generationMessage method path err))
        | Inr operation \<Rightarrow>
            Inr (g,
                 w\<lparr>operations := operations w @ [c],
                   routes := routes w @ [(group g, method, path,
                     (case operation of None \<Rightarrow> handlers
                      | Some op \<Rightarrow> wrapHandlers env operation h handlers))]\<rparr>,
                 (case operation of None \<Rightarrow> handlers
                  | Some op \<Rightarrow> wrapHandlers env operation h handlers)))"
    by blast
  from H ok obtain operation where op: "AddOperation env (operations w) c = Inr operation"
    by (cases "AddOperation env (operations w) c") simp_all
  from H ok op have res: "g' = g"
    "w' = w\<lparr>operations := operations w @ [c],
                   routes := routes w @ [(group g, method, path, handlers')]\<rparr>"
    "handlers' = (case operation of None \<Rightarrow> handlers
                  | Some op \<Rightarrow> wrapHandlers env operation h handlers)"
    by simp_all
  from res(2) have "operations w' = operations w @ [c]"
    "routes w' = routes w @ [(group g, method, path, handlers')]" "apiInfo w' = apiInfo w"
    by simp_all
  with rc op res(1,3) show ?thesis by blast
qed

lemma Handle_one_produced:
  assumes typed: "typedHandlers env handlers = [h]"
      and ok: "Handle env w g path method infos handlers = Inr (g', w', handlers')"
      and c: "operations w' = operations w @ [c]"
      and op: "AddOperation env (operations w) c = Inr (Some op)"
  shows "handlers' = wrapHandlers env (Some op) h handlers"
    and "opMethod c = method"
    and "joinPaths (BasePath env (group g)) path = Inr (opPath c)"
    and "routes w' = routes w @ [(group g, method, path, handlers')]"
proof -
  from Handle_one_result [OF typed ok]
  obtain c' operation where r:
    "AddOperation env (operations w) c' = Inr operation"
    "opMethod c' = method" "joinPaths (BasePath env (group g)) path = Inr (opPath c')"
    "operations w' = operations w @ [c']"
    "routes w' = routes w @ [(group g, method, path, handlers')]"
    "handlers' = (case operation of None \<Rightarrow> handlers
                        | Some op \<Rightarrow> wrapHandlers env operation h handlers)"
    by blast
  from r(4) c have "c' = c" by simp
  with r(1) op have "operation = Some op" by simp
  with r \<open>c' = c\<close> show "handlers' = wrapHandlers env (Some op) h handlers"
    "opMethod c = method" "joinPaths (BasePath env (group g)) path = Inr (opPath c)"
    "routes w' = routes w @ [(group g, method, path, handlers')]"
    by simp_all
qed

subsection \<open>The small installation, evaluated\<close>

lemma ex_typed_none: "typedHandlers exampleEnv [logger] = []"
  by (simp add: typedHandlers_def recognised_def exampleEnv_def logger_def)

lemma ex_typed_one: "typedHandlers exampleEnv [logger, getItem] = [getItem]"
  by (simp add: typedHandlers_def recognised_def exampleEnv_def logger_def getItem_def)


lemma ex_route: "GetRouteByHandler exampleEnv getItem = Inr getItemRoute"
  by (simp add: exampleEnv_def getItem_def)

lemma ex_join: "joinPaths ''/'' ''/items/:id'' = Inr ''/items/:id''" by code_simp


lemma ex_findWrapped: "findWrapped exampleEnv [logger, getItem] = [\<lparr>wrap_h = getItem, wrap_r = getItemRoute\<rparr>]"
  by (simp add: exampleEnv_def logger_def getItem_def)

lemma ex_Handle_items:
  "Handle exampleEnv emptyWorld rootGroup ''/items/:id'' ''GET'' [] [logger, getItem]
     = Inr (rootGroup, itemsWorld, itemsHandlers)"
  by (simp add: Handle_def ex_findWrapped Let_def)
     (simp add: exampleEnv_def rootGroup_def ex_join emptyWorld_def itemsWorld_def
       itemsHandlers_def getItemCall_def getItemRoute_def emptyOperationInfo_def
       funcEqual_def logger_def getItem_def Let_def)

lemma ex_AddOperation: "AddOperation exampleEnv (operations emptyWorld) getItemCall = Inr (Some 0)"
  by (simp add: exampleEnv_def emptyWorld_def)

lemma ex_items_world: "operations itemsWorld = operations emptyWorld @ [getItemCall]"
  by (simp add: itemsWorld_def emptyWorld_def)

lemma ex_keeps_ID: "\<forall>info\<in>set [StatusDescription_opt ''OK'']. keeps ID info"
  by (simp add: keeps_ID)

lemma ex_Handle_described:
  "Handle exampleEnv emptyWorld rootGroup ''/items/:id'' ''GET'' [StatusDescription_opt ''OK'']
     [logger, getItem]
   = Inr (rootGroup,
          itemsWorldWith (emptyOperationInfo\<lparr>ID := ''getItem'', StatusCode := 200, StatusDescription := ''OK''\<rparr>),
          itemsHandlers)"
  by (simp add: Handle_def ex_findWrapped Let_def)
     (simp add: exampleEnv_def rootGroup_def ex_join emptyWorld_def itemsWorld_def itemsWorldWith_def
       itemsHandlers_def getItemCall_def getItemRoute_def emptyOperationInfo_def
       funcEqual_def logger_def getItem_def Let_def StatusDescription_opt_def)

lemma ex_Handle_renamed:
  "Handle exampleEnv emptyWorld rootGroup ''/items/:id'' ''GET''
     ([] @ ID_opt ''fetchItem'' # [StatusDescription_opt ''OK'']) [logger, getItem]
   = Inr (rootGroup,
          itemsWorldWith (emptyOperationInfo\<lparr>ID := ''fetchItem'', StatusCode := 200, StatusDescription := ''OK''\<rparr>),
          itemsHandlers)"
  by (simp add: Handle_def ex_findWrapped Let_def)
     (simp add: exampleEnv_def rootGroup_def ex_join emptyWorld_def itemsWorld_def itemsWorldWith_def
       itemsHandlers_def getItemCall_def getItemRoute_def emptyOperationInfo_def
       funcEqual_def logger_def getItem_def Let_def StatusDescription_opt_def ID_opt_def)

lemma ex_Get_empty: "Get emptyContext ctxOpenAPIOperation = None"
  by (simp add: Get_def emptyContext_def)

lemma ex_Get_other:
  "Get (Set emptyContext ctxOpenAPIOperation (AnyOther ''x'')) ctxOpenAPIOperation = Some (AnyOther ''x'')"
  by (simp add: Get_def Set_def)

subsection \<open>When a registration aborts\<close>




subsection \<open>A chain without a typed handler\<close>

text \<open>
  \<^bold>\<open>C2.\<close> As amended: a registration whose chain holds no recognised handler hands nothing to
  the generator, so that no operation enters the document, whatever the options; the chain
  goes to the router as it is, and the defaulting of the identifier, the status code and
  the wrapping of a handler are skipped.
\<close>

theorem Handle_without_typed_handler:
  "typedHandlers env handlers = [] \<Longrightarrow>
   Handle env w g path method infos handlers =
     Inr (g, w\<lparr>routes := routes w @ [(group g, method, path, handlers)]\<rparr>, handlers)"
  by (rule Handle_none)

theorem Handle_without_typed_handler_witness:
  "typedHandlers exampleEnv [logger] = [] \<and>
   Handle exampleEnv emptyWorld rootGroup ''/ping'' ''GET'' [ID_opt ''ping''] [logger] =
     Inr (rootGroup, emptyWorld\<lparr>routes := routes emptyWorld @ [(group rootGroup, ''GET'', ''/ping'', [logger])]\<rparr>, [logger])"
  using ex_typed_none Handle_without_typed_handler [OF ex_typed_none] by simp

text \<open>
  The claim as stated fails: after registering \<^verbatim>\<open>GET /ping\<close> with an identifier option
  and the chain \<open>[logger]\<close>, the generator has received no operation.
\<close>

theorem Handle_without_typed_handler_counterexample:
  "typedHandlers exampleEnv [logger] = [] \<and>
   \<not> isl (Handle exampleEnv emptyWorld rootGroup ''/ping'' ''GET'' [ID_opt ''ping''] [logger]) \<and>
   operations (fst (snd (projr (Handle exampleEnv emptyWorld rootGroup ''/ping'' ''GET''
      [ID_opt ''ping''] [logger])))) = []"
  by (simp add: typedHandlers_def recognised_def Handle_def Let_def exampleEnv_def logger_def emptyWorld_def)

subsection \<open>The operation in the request context\<close>

lemma OperationFromContext_Set:
  "OperationFromContext (Set ctx ctxOpenAPIOperation (AnyOperation operation)) = Inr operation"
  by (simp add: OperationFromContext_def Get_def Set_def)

lemma OperationFromContext_not_found:
  "OperationFromContext ctx = Inl (Error ''operation not found'') \<longleftrightarrow>
   Get ctx ctxOpenAPIOperation = None"
  by (simp add: OperationFromContext_def split: option.splits any.splits)

lemma OperationFromContext_wrong_type:
  "Get ctx ctxOpenAPIOperation = Some v \<Longrightarrow> \<forall>p. v \<noteq> AnyOperation p \<Longrightarrow>
   OperationFromContext ctx = Inl (Error ''invalid type: not an operation'')"
  by (simp add: OperationFromContext_def split: any.splits)

lemma call_injectOperation:
  "call (injectOperation env operation orig) ctx =
   call orig (Set ctx ctxOpenAPIOperation (AnyOperation operation))"
  by (simp add: injectOperation_def)

text \<open>
  \<^bold>\<open>C4.\<close> When a route is registered with exactly one recognised handler and the generator
  returns an operation object for its method and resolved path, a call of the handler that
  stands in the matched handler's place runs the matched handler on a context in which
  \<^verbatim>\<open>OperationFromContext\<close> returns that same object.
  \<^verbatim>\<open>OperationFromContext\<close> returns the error \<^verbatim>\<open>operation not found\<close> exactly when
  the context holds no value under the key, and the error
  \<^verbatim>\<open>invalid type: not an operation\<close> when the value held is not an operation pointer. A
  chain without a recognised handler is left as it is, so that nothing is published.
\<close>

theorem OperationFromContext_round_trip:
  "(typedHandlers env handlers = [h] \<and>
    Handle env w g path method infos handlers = Inr (g', w', handlers') \<and>
    operations w' = operations w @ [c] \<and>
    AddOperation env (operations w) c = Inr (Some op) \<longrightarrow>
      opMethod c = method \<and> joinPaths (BasePath env (group g)) path = Inr (opPath c) \<and>
      (\<exists>i<length handlers. handlers ! i = h \<and>
         (\<forall>ctx. call (handlers' ! i) ctx =
                call h (Set ctx ctxOpenAPIOperation (AnyOperation (Some op)))))) \<and>
   OperationFromContext (Set ctx ctxOpenAPIOperation (AnyOperation (Some op))) = Inr (Some op) \<and>
   (OperationFromContext ctx = Inl (Error ''operation not found'') \<longleftrightarrow>
      Get ctx ctxOpenAPIOperation = None) \<and>
   (Get ctx ctxOpenAPIOperation = Some v \<and> (\<forall>p. v \<noteq> AnyOperation p) \<longrightarrow>
      OperationFromContext ctx = Inl (Error ''invalid type: not an operation'')) \<and>
   (typedHandlers env handlers = [] \<longrightarrow>
      (\<exists>w'. Handle env w g path method infos handlers = Inr (g, w', handlers)))"
proof -
  have "opMethod c = method \<and> joinPaths (BasePath env (group g)) path = Inr (opPath c) \<and>
      (\<exists>i<length handlers. handlers ! i = h \<and>
         (\<forall>ctx. call (handlers' ! i) ctx =
                call h (Set ctx ctxOpenAPIOperation (AnyOperation (Some op)))))"
    if typed: "typedHandlers env handlers = [h]"
      and ok: "Handle env w g path method infos handlers = Inr (g', w', handlers')"
      and c: "operations w' = operations w @ [c]"
      and op: "AddOperation env (operations w) c = Inr (Some op)"
  proof -
    note r = Handle_one_produced [OF typed ok c op]
    from typedHandlers_index [OF typed] obtain i where i: "i < length handlers" "handlers ! i = h"
      by blast
    have "handlers' ! i = injectOperation env (Some op) h"
      using i by (simp add: r(1) wrapHandlers_map)
    then have "\<forall>ctx. call (handlers' ! i) ctx =
                call h (Set ctx ctxOpenAPIOperation (AnyOperation (Some op)))"
      by (simp add: call_injectOperation)
    with i r(2,3) show ?thesis by blast
  qed
  moreover have "typedHandlers env handlers = [] \<longrightarrow>
      (\<exists>w'. Handle env w g path method infos handlers = Inr (g, w', handlers))"
    by (simp add: Handle_none)
  ultimately show ?thesis
    using OperationFromContext_wrong_type [of ctx v]
    by (simp add: OperationFromContext_Set OperationFromContext_not_found)
qed

theorem OperationFromContext_round_trip_witness:
  "typedHandlers exampleEnv [logger, getItem] = [getItem] \<and>
   Handle exampleEnv emptyWorld rootGroup ''/items/:id'' ''GET'' [] [logger, getItem]
     = Inr (rootGroup, itemsWorld, itemsHandlers) \<and>
   operations itemsWorld = operations emptyWorld @ [getItemCall] \<and>
   AddOperation exampleEnv (operations emptyWorld) getItemCall = Inr (Some 0) \<and>
   opMethod getItemCall = ''GET'' \<and>
   (\<exists>i<length [logger, getItem]. [logger, getItem] ! i = getItem \<and>
      (\<forall>ctx. call (itemsHandlers ! i) ctx =
             call getItem (Set ctx ctxOpenAPIOperation (AnyOperation (Some 0))))) \<and>
   Get emptyContext ctxOpenAPIOperation = None \<and>
   OperationFromContext emptyContext = Inl (Error ''operation not found'') \<and>
   Get (Set emptyContext ctxOpenAPIOperation (AnyOther ''x'')) ctxOpenAPIOperation = Some (AnyOther ''x'') \<and>
   OperationFromContext (Set emptyContext ctxOpenAPIOperation (AnyOther ''x''))
     = Inl (Error ''invalid type: not an operation'') \<and>
   typedHandlers exampleEnv [logger] = [] \<and>
   (\<exists>w'. Handle exampleEnv emptyWorld rootGroup ''/ping'' ''GET'' [] [logger] = Inr (rootGroup, w', [logger]))"
proof -
  have w: "operations itemsWorld = operations emptyWorld @ [getItemCall]"
    by (simp add: itemsWorld_def emptyWorld_def)
  have o: "\<forall>p. (AnyOther ''x'' :: nat any) \<noteq> AnyOperation p" by simp
  show ?thesis
    using ex_typed_one ex_Handle_items w ex_AddOperation ex_Get_empty ex_Get_other o ex_typed_none
      OperationFromContext_round_trip [of exampleEnv "[logger, getItem]" getItem emptyWorld rootGroup
        "''/items/:id''" "''GET''" "[]" rootGroup itemsWorld itemsHandlers getItemCall 0 emptyContext]
      OperationFromContext_round_trip [of exampleEnv "[logger]" getItem emptyWorld rootGroup
        "''/ping''" "''GET''" "[]" rootGroup itemsWorld itemsHandlers getItemCall 0
        "Set emptyContext ctxOpenAPIOperation (AnyOther ''x'')" "AnyOther ''x''"]
    by simp
qed

subsection \<open>The identifier of the operation\<close>

text \<open>
  \<^bold>\<open>C6.\<close> As amended: for a registration with exactly one recognised handler that does not abort,
  the operation handed to the generator carries the identifier that the options leave
  when it is not empty, and the handler's display name when it is empty. So the display
  name is used when no option touches the identifier, and also when the identifier option
  supplies the empty string; an identifier option with a string that is not empty
  decides.
\<close>

theorem Handle_operation_identifier:
  assumes "typedHandlers env handlers = [h]"
      and "GetRouteByHandler env h = Inr r"
      and "Handle env w g path method infos handlers = Inr (g', w', handlers')"
  shows "\<exists>c. operations w' = operations w @ [c] \<and>
           ID (opInfo c) = (if ID (applyOptions infos emptyOperationInfo) = [] then HandlerName r
                            else ID (applyOptions infos emptyOperationInfo)) \<and>
           ((\<forall>info\<in>set infos. keeps ID info) \<longrightarrow> ID (opInfo c) = HandlerName r) \<and>
           (\<forall>before ident after.
              infos = before @ ID_opt ident # after \<and> (\<forall>info\<in>set after. keeps ID info) \<longrightarrow>
              ID (opInfo c) = (if ident = [] then HandlerName r else ident))"
proof -
  from Handle_one_result [OF assms(1,3)] assms(2)
  obtain c where c: "operations w' = operations w @ [c]"
    "opInfo c = (applyOptions infos emptyOperationInfo)
               \<lparr>ID := (if ID (applyOptions infos emptyOperationInfo) = [] then HandlerName r
                       else ID (applyOptions infos emptyOperationInfo)),
                StatusCode := GetDefaultStatusCode r\<rparr>"
    by auto
  have i: "ID (opInfo c) = (if ID (applyOptions infos emptyOperationInfo) = [] then HandlerName r
                            else ID (applyOptions infos emptyOperationInfo))"
    by (simp add: c(2))
  have n: "ID (opInfo c) = HandlerName r" if "\<forall>info\<in>set infos. keeps ID info"
    using that applyOptions_keeps [of infos ID emptyOperationInfo]
    by (simp add: i emptyOperationInfo_def)
  have s: "ID (opInfo c) = (if ident = [] then HandlerName r else ident)"
    if "infos = before @ ID_opt ident # after" "\<forall>info\<in>set after. keeps ID info"
    for before ident after
  proof -
    have "ID (applyOptions infos emptyOperationInfo) = ident"
      unfolding that(1) by (rule applyOptions_sets [OF setters(3) that(2)])
    then show ?thesis by (simp add: i)
  qed
  from c(1) i n s show ?thesis by blast
qed

theorem Handle_operation_identifier_witness:
  "typedHandlers exampleEnv [logger, getItem] = [getItem] \<and>
   GetRouteByHandler exampleEnv getItem = Inr getItemRoute \<and>
   Handle exampleEnv emptyWorld rootGroup ''/items/:id'' ''GET'' [StatusDescription_opt ''OK'']
     [logger, getItem]
   = Inr (rootGroup,
          itemsWorldWith (emptyOperationInfo\<lparr>ID := ''getItem'', StatusCode := 200, StatusDescription := ''OK''\<rparr>),
          itemsHandlers) \<and>
   keeps ID (StatusDescription_opt ''OK'') \<and>
   (\<exists>c. operations (itemsWorldWith (emptyOperationInfo\<lparr>ID := ''getItem'', StatusCode := 200,
            StatusDescription := ''OK''\<rparr>)) = operations emptyWorld @ [c] \<and>
        ID (opInfo c) = HandlerName getItemRoute) \<and>
   Handle exampleEnv emptyWorld rootGroup ''/items/:id'' ''GET''
     ([] @ ID_opt ''fetchItem'' # [StatusDescription_opt ''OK'']) [logger, getItem]
   = Inr (rootGroup,
          itemsWorldWith (emptyOperationInfo\<lparr>ID := ''fetchItem'', StatusCode := 200, StatusDescription := ''OK''\<rparr>),
          itemsHandlers) \<and>
   (\<exists>c. operations (itemsWorldWith (emptyOperationInfo\<lparr>ID := ''fetchItem'', StatusCode := 200,
            StatusDescription := ''OK''\<rparr>)) = operations emptyWorld @ [c] \<and>
        ID (opInfo c) = ''fetchItem'')"
proof -
  have a: "\<exists>c. operations (itemsWorldWith (emptyOperationInfo\<lparr>ID := ''getItem'', StatusCode := 200,
            StatusDescription := ''OK''\<rparr>)) = operations emptyWorld @ [c] \<and>
        ID (opInfo c) = HandlerName getItemRoute"
    using Handle_operation_identifier [OF ex_typed_one ex_route ex_Handle_described] ex_keeps_ID
    by blast
  have "\<exists>c. operations (itemsWorldWith (emptyOperationInfo\<lparr>ID := ''fetchItem'', StatusCode := 200,
            StatusDescription := ''OK''\<rparr>)) = operations emptyWorld @ [c] \<and>
        ID (opInfo c) = (if ''fetchItem'' = [] then HandlerName getItemRoute else ''fetchItem'')"
    using Handle_operation_identifier [OF ex_typed_one ex_route ex_Handle_renamed] ex_keeps_ID
    by blast
  then have b: "\<exists>c. operations (itemsWorldWith (emptyOperationInfo\<lparr>ID := ''fetchItem'', StatusCode := 200,
            StatusDescription := ''OK''\<rparr>)) = operations emptyWorld @ [c] \<and>
        ID (opInfo c) = ''fetchItem''"
    by simp
  show ?thesis
    using ex_typed_one ex_route ex_Handle_described ex_Handle_renamed keeps_ID(3) a b by blast
qed

text \<open>
  The claim as stated fails for the identifier option with the empty string: the operation
  is registered under the display name \<^verbatim>\<open>getItem\<close>, not under the supplied identifier.
\<close>

theorem Handle_empty_identifier_counterexample:
  "typedHandlers exampleEnv [getItem] = [getItem] \<and>
   \<not> isl (Handle exampleEnv emptyWorld rootGroup ''/items/:id'' ''GET'' [ID_opt []] [getItem]) \<and>
   map (ID \<circ> opInfo) (operations (fst (snd (projr
     (Handle exampleEnv emptyWorld rootGroup ''/items/:id'' ''GET'' [ID_opt []] [getItem])))))
     = [''getItem'']"
  by (simp add: typedHandlers_def recognised_def Handle_def Let_def)
     (simp add: exampleEnv_def getItem_def rootGroup_def ex_join emptyWorld_def
       getItemRoute_def emptyOperationInfo_def ID_opt_def Let_def)

subsection \<open>The handler that publishes the operation\<close>

text \<open>
  \<^bold>\<open>C8.\<close> When a registration with exactly one recognised handler produces an operation, the
  chain keeps its length and order; each handler whose entry point is that of the matched
  handler, and so the matched handler at its own position, is replaced by a handler that
  stores the operation under the context key and then calls the handler it replaces on
  that context; every other handler stays. \<^verbatim>\<open>funcEqual\<close> compares entry points. The
  chain so changed is the one that goes to the router.
\<close>

theorem Handle_wraps_matched_handler:
  assumes "typedHandlers env handlers = [h]"
      and "Handle env w g path method infos handlers = Inr (g', w', handlers')"
      and "operations w' = operations w @ [c]"
      and "AddOperation env (operations w) c = Inr (Some op)"
  shows "length handlers' = length handlers \<and>
         (\<forall>i<length handlers.
            handlers' ! i =
              (if funcEqual (FuncOf (handlers ! i)) (FuncOf h)
               then injectOperation env (Some op) (handlers ! i) else handlers ! i)) \<and>
         (\<exists>i<length handlers. handlers ! i = h \<and> handlers' ! i = injectOperation env (Some op) h) \<and>
         (\<forall>orig ctx. call (injectOperation env (Some op) orig) ctx =
                      call orig (Set ctx ctxOpenAPIOperation (AnyOperation (Some op)))) \<and>
         (\<forall>a b. funcEqual (FuncOf a) (FuncOf b) = (entry a = entry b)) \<and>
         routes w' = routes w @ [(group g, method, path, handlers')]"
proof -
  note r = Handle_one_produced [OF assms]
  have l: "length handlers' = length handlers" by (simp add: r(1) wrapHandlers_map)
  have n: "\<forall>i<length handlers.
            handlers' ! i =
              (if funcEqual (FuncOf (handlers ! i)) (FuncOf h)
               then injectOperation env (Some op) (handlers ! i) else handlers ! i)"
    by (simp add: r(1) wrapHandlers_map funcEqual_def)
  from typedHandlers_index [OF assms(1)] obtain i where i: "i < length handlers" "handlers ! i = h"
    by blast
  then have "handlers' ! i = injectOperation env (Some op) h"
    by (simp add: r(1) wrapHandlers_map)
  with i have e: "\<exists>i<length handlers. handlers ! i = h \<and> handlers' ! i = injectOperation env (Some op) h"
    by blast
  have f: "\<forall>a b. funcEqual (FuncOf a) (FuncOf b) = (entry a = entry b)"
    by (simp add: funcEqual_def)
  from l n e f r(4) show ?thesis by (simp add: call_injectOperation)
qed

theorem Handle_wraps_matched_handler_witness:
  "typedHandlers exampleEnv [logger, getItem] = [getItem] \<and>
   Handle exampleEnv emptyWorld rootGroup ''/items/:id'' ''GET'' [] [logger, getItem]
     = Inr (rootGroup, itemsWorld, itemsHandlers) \<and>
   operations itemsWorld = operations emptyWorld @ [getItemCall] \<and>
   AddOperation exampleEnv (operations emptyWorld) getItemCall = Inr (Some 0) \<and>
   length itemsHandlers = length [logger, getItem] \<and>
   (\<exists>i<length [logger, getItem]. [logger, getItem] ! i = getItem \<and>
      itemsHandlers ! i = injectOperation exampleEnv (Some 0) getItem) \<and>
   routes itemsWorld = routes emptyWorld @ [(group rootGroup, ''GET'', ''/items/:id'', itemsHandlers)]"
  using ex_typed_one ex_Handle_items ex_items_world ex_AddOperation
    Handle_wraps_matched_handler [OF ex_typed_one ex_Handle_items ex_items_world ex_AddOperation]
  by blast

section \<open>Route groups: results\<close>

text \<open>
  \<^bold>\<open>C5.\<close> The claim is that deriving a group leaves the tags of the parent as they were, so that
  groups derived from one parent do not see each other's tags. Evaluated on the root
  group: after a first group is derived with tag \<^verbatim>\<open>A\<close> the root group itself carries
  \<^verbatim>\<open>A\<close>, and a second group derived from the root with tag \<^verbatim>\<open>B\<close> carries
  \<^verbatim>\<open>A\<close> and \<^verbatim>\<open>B\<close>.
\<close>

theorem Group_sibling_tags:
  "tags rootGroup = [] \<and>
   tags (fst (Group exampleEnv rootGroup ''/a'' (Some ''A'') [])) = [''A''] \<and>
   tags (snd (Group exampleEnv rootGroup ''/a'' (Some ''A'') [])) = [''A''] \<and>
   tags (snd (Group exampleEnv (fst (Group exampleEnv rootGroup ''/a'' (Some ''A'') []))
                ''/b'' (Some ''B'') [])) = [''A'', ''B'']"
  by (simp add: Group_def rootGroup_def Let_def)

section \<open>Serving the document: results\<close>

lemma toLowerByte_iff:
  assumes "\<not> isUpper d"
  shows "toLowerByte c = d \<longleftrightarrow> sameLetter c d"
proof (cases "isUpper c")
  case True
  then have lt: "(of_char c :: nat) + 32 < 256" by (simp add: isUpper_def)
  have "char_of ((of_char c :: nat) + 32) = d \<longleftrightarrow> (of_char d :: nat) = of_char c + 32"
  proof
    assume "char_of ((of_char c :: nat) + 32) = d"
    then have "(of_char d :: nat) = of_char (char_of ((of_char c :: nat) + 32))" by simp
    also have "\<dots> = ((of_char c :: nat) + 32) mod 256" by (simp only: of_char_of)
    finally show "(of_char d :: nat) = of_char c + 32" using lt by simp
  next
    assume "(of_char d :: nat) = of_char c + 32"
    then have "char_of (of_char d :: nat) = char_of ((of_char c :: nat) + 32)" by simp
    then show "char_of ((of_char c :: nat) + 32) = d" by simp
  qed
  moreover have "c \<noteq> d" using True assms by auto
  moreover have "toLowerByte c = char_of ((of_char c :: nat) + 32)"
    using True by (simp add: toLowerByte_def isUpper_def)
  ultimately show ?thesis using True assms by (simp add: sameLetter_def)
next
  case False
  then have "toLowerByte c = c" by (auto simp: toLowerByte_def isUpper_def)
  then show ?thesis using False assms by (simp add: sameLetter_def)
qed

lemma ToLower_iff:
  "\<forall>d\<in>set t. \<not> isUpper d \<Longrightarrow> ToLower s = t \<longleftrightarrow> equalFold s t"
proof (induction s arbitrary: t)
  case Nil
  then show ?case by (auto simp: ToLower_def equalFold_def)
next
  case (Cons c s)
  show ?case
  proof (cases t)
    case Nil
    then show ?thesis by (simp add: ToLower_def equalFold_def)
  next
    case (Cons d t')
    with Cons.prems Cons.IH [of t'] show ?thesis
      by (simp add: ToLower_def equalFold_def toLowerByte_iff)
  qed
qed

lemma json_lower: "\<forall>d\<in>set ''json''. \<not> isUpper d" by (simp add: isUpper_def)

lemma yaml_lower: "\<forall>d\<in>set ''yaml''. \<not> isUpper d" by (simp add: isUpper_def)

lemma ToLower_empty: "ToLower ct = [] \<longleftrightarrow> ct = []" by (simp add: ToLower_def)

lemma OpenAPI_cases:
  "OpenAPI w info ct =
     (if ct = [] \<or> equalFold ct ''json'' then Inr (w\<lparr>apiInfo := info\<rparr>, JSON 200)
      else if equalFold ct ''yaml'' then Inr (w\<lparr>apiInfo := info\<rparr>, YAML 200)
      else Inl (Panic ''invalid content type, use JSON or YAML''))"
proof -
  have j: "ToLower ct = ''json'' \<longleftrightarrow> equalFold ct ''json''" by (rule ToLower_iff [OF json_lower])
  have y: "ToLower ct = ''yaml'' \<longleftrightarrow> equalFold ct ''yaml''" by (rule ToLower_iff [OF yaml_lower])
  have e: "\<not> equalFold [] ''yaml''" by (simp add: equalFold_def)
  show ?thesis
    unfolding OpenAPI_def Let_def using j y e by (auto simp: ToLower_empty)
qed

lemma equalFold_JsOn: "equalFold ''JsOn'' ''json''" by (simp add: equalFold_def sameLetter_def isUpper_def)

lemma equalFold_YAML: "equalFold ''YAML'' ''yaml''" by (simp add: equalFold_def sameLetter_def isUpper_def)

lemma equalFold_xml: "\<not> equalFold ''xml'' ''json'' \<and> \<not> equalFold ''xml'' ''yaml''" by (simp add: equalFold_def sameLetter_def isUpper_def)

text \<open>
  \<^bold>\<open>C9.\<close> As amended: \<^verbatim>\<open>OpenAPI\<close> returns a handler that renders the document as JSON when
  the content type is empty or is \<^verbatim>\<open>json\<close> in any letter case, and as YAML when it is
  \<^verbatim>\<open>yaml\<close> in any letter case; for every other content type it panics when it is
  called, and returns no handler.
\<close>

theorem OpenAPI_content_type:
  "(ct = [] \<or> equalFold ct ''json'' \<longrightarrow>
      OpenAPI w info ct = Inr (w\<lparr>apiInfo := info\<rparr>, (JSON 200 :: 'api \<Rightarrow> 'api render))) \<and>
   (equalFold ct ''yaml'' \<longrightarrow>
      OpenAPI w info ct = Inr (w\<lparr>apiInfo := info\<rparr>, (YAML 200 :: 'api \<Rightarrow> 'api render))) \<and>
   (ct \<noteq> [] \<and> \<not> equalFold ct ''json'' \<and> \<not> equalFold ct ''yaml'' \<longrightarrow>
      (OpenAPI w info ct :: panic + (('op, 'r) world \<times> ('api \<Rightarrow> 'api render)))
        = Inl (Panic ''invalid content type, use JSON or YAML''))"
proof -
  have "\<not> (equalFold ct ''json'' \<and> equalFold ct ''yaml'')"
    using ToLower_iff [OF json_lower, of ct] ToLower_iff [OF yaml_lower, of ct] by auto
  moreover have "\<not> equalFold [] ''yaml''" by (simp add: equalFold_def)
  ultimately show ?thesis by (auto simp: OpenAPI_cases)
qed

theorem OpenAPI_content_type_witness:
  "equalFold ''JsOn'' ''json'' \<and>
   OpenAPI emptyWorld None ''JsOn'' = Inr (emptyWorld\<lparr>apiInfo := None\<rparr>, (JSON 200 :: nat \<Rightarrow> nat render)) \<and>
   OpenAPI emptyWorld None [] = Inr (emptyWorld\<lparr>apiInfo := None\<rparr>, (JSON 200 :: nat \<Rightarrow> nat render)) \<and>
   equalFold ''YAML'' ''yaml'' \<and>
   OpenAPI emptyWorld None ''YAML'' = Inr (emptyWorld\<lparr>apiInfo := None\<rparr>, (YAML 200 :: nat \<Rightarrow> nat render)) \<and>
   ''xml'' \<noteq> [] \<and> \<not> equalFold ''xml'' ''json'' \<and> \<not> equalFold ''xml'' ''yaml'' \<and>
   (OpenAPI emptyWorld None ''xml'' :: panic + ((nat, string) world \<times> (nat \<Rightarrow> nat render)))
     = Inl (Panic ''invalid content type, use JSON or YAML'')"
  using equalFold_JsOn equalFold_YAML equalFold_xml
    OpenAPI_content_type [where ?'api = nat, of "''JsOn''" emptyWorld None]
    OpenAPI_content_type [where ?'api = nat, of "[]" emptyWorld None]
    OpenAPI_content_type [where ?'api = nat, of "''YAML''" emptyWorld None]
    OpenAPI_content_type [where ?'api = nat, of "''xml''" emptyWorld None]
  by simp

text \<open>
  The claim as stated fails on the empty content type, which is neither \<^verbatim>\<open>json\<close> nor
  \<^verbatim>\<open>yaml\<close> in any letter case: the handler returned renders JSON.
\<close>

theorem OpenAPI_empty_content_type_counterexample:
  "\<not> equalFold [] ''json'' \<and> \<not> equalFold [] ''yaml'' \<and>
   snd (projr (OpenAPI emptyWorld None [])) (0 :: nat) = JSON 200 0"
  by (simp add: equalFold_def OpenAPI_def ToLower_def)

end
